theory Spec2Isabelle
  imports Main "HOL-Library.Sublist"
begin

section \<open>The test-harness configuration of JLLVM\<close>

text \<open>
  The repository's test suite is configured by the script \<^verbatim>\<open>tests/lit.cfg.py\<close>. The script
  is a straight-line sequence of assignments to the attributes of the object \<^verbatim>\<open>config\<close> and of
  calls of the object \<^verbatim>\<open>llvm_config\<close>. It is embedded here as a function from the configuration
  it starts from to the configuration it leaves, or to the error that stops it.
\<close>

subsection \<open>Data\<close>

type_synonym path = string

text \<open>An environment is a Python dict from variable names to values.\<close>

type_synonym env = "string \<rightharpoonup> string"

text \<open>
  \<^verbatim>\<open>config.substitutions\<close> is a Python list of pairs (token, expansion): order and duplicates
  are kept.
\<close>

type_synonym table = "(string \<times> string) list"

text \<open>\<^verbatim>\<open>lit.formats.ShTest(execute_external)\<close>.\<close>

datatype test_format = ShTest bool

text \<open>
  The elements of the list \<^verbatim>\<open>tools\<close>: a bare tool name, or
  \<^verbatim>\<open>ToolSubst(key, command=None, extra_args=None)\<close>, where \<^verbatim>\<open>command\<close> is the explicit
  invocation that replaces the search, and \<^verbatim>\<open>extra_args\<close> the fixed arguments of the tool.
\<close>

datatype tool = Name string | ToolSubst string "string option" "string list"

text \<open>
  The attributes of \<^verbatim>\<open>config\<close> that the script reads or writes. The last five are set by the
  generated site configuration, which runs before the script.
\<close>

record config =
  name :: string
  test_format :: test_format
  suffixes :: "string list"
  test_source_root :: path
  test_exec_root :: path
  substitutions :: table
  environment :: env
  excludes :: "string list"
  jllvm_obj_root :: path
  jllvm_tools_dir :: path
  llvm_tools_dir :: path
  java_home :: path
  jasmin_src :: path

text \<open>What stops the script: a Python exception, or a fatal error raised by the library.\<close>

datatype error = KeyError string | ToolNotFound string | Fatal string

text \<open>
  The object \<^verbatim>\<open>llvm_config\<close> belongs to the test library that the script imports; the library
  is no part of the repository. The script is therefore embedded over an arbitrary implementation
  of the attribute and the four methods it uses. Each method receives the configuration and
  returns the configuration it leaves or the error it raises;
  \<^verbatim>\<open>with_system_environment\<close> also receives the environment of the harness process
  (\<^verbatim>\<open>os.environ\<close>), which it reads.
\<close>

record llvm_config =
  use_lit_shell :: bool
  with_system_environment :: "env \<Rightarrow> string list \<Rightarrow> config \<Rightarrow> error + config"
  use_default_substitutions :: "config \<Rightarrow> error + config"
  with_environment :: "string \<Rightarrow> string \<Rightarrow> bool \<Rightarrow> config \<Rightarrow> error + config"
  add_tool_substitutions :: "tool list \<Rightarrow> path list \<Rightarrow> config \<Rightarrow> error + config"

subsection \<open>Helpers of the Python library\<close>

text \<open>A raised exception ends the script: the rest runs only on a result.\<close>

definition and_then :: "error + 'a \<Rightarrow> ('a \<Rightarrow> error + 'b) \<Rightarrow> error + 'b" where
  "and_then m f = (case m of Inl e \<Rightarrow> Inl e | Inr x \<Rightarrow> f x)"

text \<open>\<^verbatim>\<open>d[k]\<close> on a dict raises \<^verbatim>\<open>KeyError\<close> when the key is missing.\<close>

definition getitem :: "env \<Rightarrow> string \<Rightarrow> error + string" where
  "getitem d k = (case d k of None \<Rightarrow> Inl (KeyError k) | Some v \<Rightarrow> Inr v)"

text \<open>
  \<^verbatim>\<open>os.path.dirname\<close> and the two-argument \<^verbatim>\<open>os.path.join\<close>, as \<^verbatim>\<open>posixpath\<close> defines them:
  the head is the path up to its last slash, without trailing slashes unless it consists of
  slashes only; joining starts afresh at an absolute second part.
\<close>

definition dirname :: "path \<Rightarrow> path" where
  "dirname p =
     (let head = rev (dropWhile (\<lambda>c. c \<noteq> CHR ''/'') (rev p))
      in if head \<noteq> [] \<and> \<not> list_all (\<lambda>c. c = CHR ''/'') head
         then rev (dropWhile (\<lambda>c. c = CHR ''/'') (rev head))
         else head)"

definition path_join :: "path \<Rightarrow> path \<Rightarrow> path" where
  "path_join a b =
     (if b \<noteq> [] \<and> hd b = CHR ''/'' then b
      else if a = [] \<or> last a = CHR ''/'' then a @ b
      else a @ ''/'' @ b)"

subsection \<open>The script\<close>

text \<open>
  \<^verbatim>\<open>lit_cfg L os_environ file c0\<close> runs \<^verbatim>\<open>tests/lit.cfg.py\<close>, stored at the path
  \<^verbatim>\<open>file\<close>, on the configuration \<^verbatim>\<open>c0\<close>, statement by statement in the order of the file.
\<close>

definition tool_dirs :: "config \<Rightarrow> path list" where
  "tool_dirs c = [jllvm_tools_dir c, llvm_tools_dir c, java_home c]"

definition tools :: "config \<Rightarrow> tool list" where
  "tools c =
     [ToolSubst ''jllvm'' None [''%{JLLVM_EXTRA_ARGS}''],
      Name ''jllvm-jvmc'',
      Name ''javac'',
      ToolSubst ''jasmin'' (Some (''java -jar '' @ jasmin_src c @ ''/jasmin.jar'')) []]"

definition lit_cfg :: "llvm_config \<Rightarrow> env \<Rightarrow> path \<Rightarrow> config \<Rightarrow> error + config" where
  "lit_cfg L os_environ file c0 =
     (let c = c0\<lparr>name := ''JLLVM''\<rparr>;
          c = c\<lparr>test_format := ShTest (\<not> use_lit_shell L)\<rparr>;
          c = c\<lparr>suffixes := [''.java'', ''.j'']\<rparr>;
          c = c\<lparr>test_source_root := dirname file\<rparr>;
          c = c\<lparr>test_exec_root := path_join (jllvm_obj_root c) ''tests''\<rparr>
      in and_then (getitem (environment c) ''PATH'') (\<lambda>path_value.
         let c = c\<lparr>substitutions := substitutions c @ [(''%PATH%'', path_value)]\<rparr>
         in and_then (with_system_environment L os_environ
              [''HOME'', ''INCLUDE'', ''LIB'', ''TMP'', ''TEMP'', ''TSAN_OPTIONS'',
               ''ASAN_OPTIONS'', ''UBSAN_OPTIONS''] c) (\<lambda>c.
         and_then (use_default_substitutions L c) (\<lambda>c.
         let c = c\<lparr>excludes := [''Inputs'', ''CMakeLists.txt'', ''jllvm-lit.py'', ''lit.cfg.py'']\<rparr>;
             c = c\<lparr>test_source_root := dirname file\<rparr>;
             c = c\<lparr>test_exec_root := path_join (jllvm_obj_root c) ''tests''\<rparr>
         in and_then (with_environment L ''PATH'' (llvm_tools_dir c) True c) (\<lambda>c.
         and_then (add_tool_substitutions L (tools c) (tool_dirs c) c) (\<lambda>c.
         let c = c\<lparr>environment := (environment c)
                   (''FILECHECK_OPTS'' \<mapsto> ''-enable-var-scope --allow-unused-prefixes=false'')\<rparr>;
             c = c\<lparr>substitutions := substitutions c @ [(''%{JLLVM_EXTRA_ARGS}'', '''')]\<rparr>
         in Inr c))))))"

section \<open>The test library, as the specification describes it\<close>

text \<open>
  The methods of \<^verbatim>\<open>llvm_config\<close> are defined by the test library, whose code is not in the
  repository. The definitions of this section follow the words of the specification.
\<close>

subsection \<open>Tool Resolver\<close>

text \<open>
  Modelled from the spec: the directory-listing abstraction the resolver is given (section 9).
  A file system says of each path whether an executable file is stored there.
\<close>

type_synonym filesystem = "path \<Rightarrow> bool"

text \<open>
  Modelled from the spec: the result of \<^verbatim>\<open>resolve\<close> (section 4.1), the resolved invocation
  or \<^verbatim>\<open>NotFound\<close>.
\<close>

datatype resolution = ResolvedTool string | NotFound

text \<open>
  Modelled from the spec: the file that stands for the tool \<^verbatim>\<open>name\<close> in the directory
  \<^verbatim>\<open>d\<close> under one of the platform's executable suffixes (section 4.1: "an executable file
  matching \<^verbatim>\<open>name\<close> (subject to platform executable-suffix conventions)").
\<close>

definition candidate :: "path \<Rightarrow> string \<Rightarrow> string \<Rightarrow> path" where
  "candidate d tname sfx = d @ ''/'' @ tname @ sfx"

text \<open>
  Modelled from the spec: the search of one directory, trying the platform's suffixes in their
  order (section 4.1).
\<close>

fun find_in_dir :: "filesystem \<Rightarrow> string list \<Rightarrow> path \<Rightarrow> string \<Rightarrow> path option" where
  "find_in_dir fs [] d tname = None"
| "find_in_dir fs (s # exts) d tname =
     (if fs (candidate d tname s) then Some (candidate d tname s) else find_in_dir fs exts d tname)"

text \<open>
  Modelled from the spec: the scan of the search directories (section 4.1: "\<^verbatim>\<open>searchDirs\<close> is
  scanned in order; the resolver returns the first directory in which an executable file
  matching \<^verbatim>\<open>name\<close> exists").
\<close>

fun scan :: "filesystem \<Rightarrow> string list \<Rightarrow> string \<Rightarrow> path list \<Rightarrow> path option" where
  "scan fs exts tname [] = None"
| "scan fs exts tname (d # ds) =
     (case find_in_dir fs exts d tname of
        Some p \<Rightarrow> Some p
      | None \<Rightarrow> scan fs exts tname ds)"

text \<open>
  Modelled from the spec: \<^verbatim>\<open>resolve(name, searchDirs, explicitPath?)\<close> of the Tool Resolver
  (section 4.1). An explicit path is used verbatim and the file system is not consulted;
  otherwise the directories are scanned, and a scan that finds nothing gives \<^verbatim>\<open>NotFound\<close>.
  The file system and the platform's executable suffixes are further arguments.
\<close>

definition resolve ::
  "filesystem \<Rightarrow> string list \<Rightarrow> string \<Rightarrow> path list \<Rightarrow> string option \<Rightarrow> resolution" where
  "resolve fs exts tname searchDirs explicitPath =
     (case explicitPath of
        Some p \<Rightarrow> ResolvedTool p
      | None \<Rightarrow>
          (case scan fs exts tname searchDirs of
             Some p \<Rightarrow> ResolvedTool p
           | None \<Rightarrow> NotFound))"

subsection \<open>Substitution Table\<close>

text \<open>
  Modelled from the spec: \<^verbatim>\<open>register(token, expansion)\<close> of the Substitution Table
  (section 4.2: "\<^verbatim>\<open>register\<close> appends to an ordered list").
\<close>

definition register :: "string \<Rightarrow> string \<Rightarrow> table \<Rightarrow> table" where
  "register token expansion T = T @ [(token, expansion)]"

text \<open>
  Modelled from the spec: the canonical name of a ToolSpec (section 3), read off an element of
  \<^verbatim>\<open>tools\<close>. A bare name is a ToolSpec with no explicit path and no fixed arguments.
\<close>

fun tool_name :: "tool \<Rightarrow> string" where
  "tool_name (Name n) = n"
| "tool_name (ToolSubst n command extra_args) = n"

text \<open>Modelled from the spec: the optional explicit path of a ToolSpec (section 3).\<close>

fun tool_command :: "tool \<Rightarrow> string option" where
  "tool_command (Name n) = None"
| "tool_command (ToolSubst n command extra_args) = command"

text \<open>Modelled from the spec: the fixed argument list of a ToolSpec (section 3).\<close>

fun tool_extra_args :: "tool \<Rightarrow> string list" where
  "tool_extra_args (Name n) = []"
| "tool_extra_args (ToolSubst n command extra_args) = extra_args"

text \<open>
  Modelled from the spec: the invocation a ToolSpec stands for (sections 3 and 4.1), the
  resolved tool followed by its fixed arguments, as one text with single blanks between the
  parts.
\<close>

fun invocation :: "string \<Rightarrow> string list \<Rightarrow> string" where
  "invocation p [] = p"
| "invocation p (a # args) = invocation (p @ '' '' @ a) args"

text \<open>
  Modelled from the spec: the registration of the declared tools. Each tool is resolved in the
  order of the list and registered under its name; a tool that is \<^verbatim>\<open>NotFound\<close> is a
  configuration error (sections 4.1 and 7) and nothing is registered for it.
\<close>

fun register_tools ::
  "filesystem \<Rightarrow> string list \<Rightarrow> tool list \<Rightarrow> path list \<Rightarrow> table \<Rightarrow> error + table" where
  "register_tools fs exts [] dirs T = Inr T"
| "register_tools fs exts (t # ts) dirs T =
     (case resolve fs exts (tool_name t) dirs (tool_command t) of
        NotFound \<Rightarrow> Inl (ToolNotFound (tool_name t))
      | ResolvedTool p \<Rightarrow>
          register_tools fs exts ts dirs
            (register (tool_name t) (invocation p (tool_extra_args t)) T))"

text \<open>
  Modelled from the spec: the library's method \<^verbatim>\<open>add_tool_substitutions\<close>, which registers
  the declared tools in the table of the configuration (section 2: the outputs of the Tool
  Resolver populate the Substitution Table).
\<close>

definition lib_add_tool_substitutions ::
  "filesystem \<Rightarrow> string list \<Rightarrow> tool list \<Rightarrow> path list \<Rightarrow> config \<Rightarrow> error + config" where
  "lib_add_tool_substitutions fs exts ts dirs c =
     (case register_tools fs exts ts dirs (substitutions c) of
        Inl e \<Rightarrow> Inl e
      | Inr T \<Rightarrow> Inr (c\<lparr>substitutions := T\<rparr>))"

subsection \<open>Environment Projector\<close>

text \<open>
  Modelled from the spec: the Environment Projector (section 2), which "copies a fixed
  allow-list of ambient environment variables into an isolated execution environment". A
  variable of the allow-list that the ambient environment does not hold is not copied.
\<close>

fun project :: "env \<Rightarrow> string list \<Rightarrow> env \<Rightarrow> env" where
  "project ambient [] e = e"
| "project ambient (v # vs) e =
     project ambient vs (case ambient v of None \<Rightarrow> e | Some x \<Rightarrow> e(v \<mapsto> x))"

text \<open>
  Modelled from the spec: the library's method \<^verbatim>\<open>with_system_environment\<close>, the projection
  of the allow-list into the environment of the configuration (section 2).
\<close>

definition lib_with_system_environment :: "env \<Rightarrow> string list \<Rightarrow> config \<Rightarrow> error + config" where
  "lib_with_system_environment ambient vs c =
     Inr (c\<lparr>environment := project ambient vs (environment c)\<rparr>)"

text \<open>
  Modelled from the spec: the Environment Projector (section 2) "supports appending/prepending
  path-like values to specific variables". With \<^verbatim>\<open>append_path\<close> the value is appended to
  the variable's value, after the path separator; without it the variable is set to the value.
\<close>

definition lib_with_environment :: "string \<Rightarrow> string \<Rightarrow> bool \<Rightarrow> config \<Rightarrow> error + config" where
  "lib_with_environment var v append_path c =
     Inr (c\<lparr>environment := (environment c)
       (var \<mapsto> (case environment c var of
                  Some old \<Rightarrow> if append_path then old @ '':'' @ v else v
                | None \<Rightarrow> v))\<rparr>)"

text \<open>
  Modelled from the spec: the registration of a list of substitutions, in their order
  (section 4.2). It stands for the library's method \<^verbatim>\<open>use_default_substitutions\<close>: the
  specification does not say which substitutions the library registers by default, so they are
  an argument of the library.
\<close>

fun register_all :: "table \<Rightarrow> table \<Rightarrow> table" where
  "register_all [] T = T"
| "register_all ((token, expansion) # ds) T = register_all ds (register token expansion T)"

text \<open>
  Modelled from the spec: the default substitutions registered in the table of the
  configuration (section 4.2: registration appends).
\<close>

definition lib_use_default_substitutions :: "table \<Rightarrow> config \<Rightarrow> error + config" where
  "lib_use_default_substitutions defaults c =
     Inr (c\<lparr>substitutions := register_all defaults (substitutions c)\<rparr>)"

text \<open>
  Modelled from the spec: the object \<^verbatim>\<open>llvm_config\<close> of the library, over a file system,
  the platform's executable suffixes and the default substitutions.
\<close>

definition library :: "filesystem \<Rightarrow> string list \<Rightarrow> table \<Rightarrow> bool \<Rightarrow> llvm_config" where
  "library fs exts defaults shell =
     \<lparr>use_lit_shell = shell,
      with_system_environment = lib_with_system_environment,
      use_default_substitutions = lib_use_default_substitutions defaults,
      with_environment = lib_with_environment,
      add_tool_substitutions = lib_add_tool_substitutions fs exts\<rparr>"

section \<open>The stored table and a sample run\<close>

text \<open>
  An entry's expansion, as stored, contains no token that is registered after it: no token of
  a later entry of the table occurs in it as a piece of its text.
\<close>

fun no_later_token :: "table \<Rightarrow> bool" where
  "no_later_token [] = True"
| "no_later_token ((token, expansion) # rest) =
     (list_all (\<lambda>(t, e). \<not> sublist t expansion) rest \<and> no_later_token rest)"

text \<open>
  A sample run: a site configuration, a file system that holds \<^verbatim>\<open>javac\<close> in two of the
  search directories, and an environment of the harness process that holds a
  \<^verbatim>\<open>FILECHECK_OPTS\<close> of its own.
\<close>

definition site0 :: config where
  "site0 =
     \<lparr>name = '''', test_format = ShTest False, suffixes = [], test_source_root = '''',
      test_exec_root = '''', substitutions = [],
      environment = [''PATH'' \<mapsto> ''/usr/bin'', ''FILECHECK_OPTS'' \<mapsto> ''--dump-input=always''],
      excludes = [], jllvm_obj_root = ''/build'', jllvm_tools_dir = ''/build/bin'',
      llvm_tools_dir = ''/llvm/bin'', java_home = ''/jdk/bin'', jasmin_src = ''/jasmin''\<rparr>"

definition fs0 :: filesystem where
  "fs0 p =
     (p \<in> set [''/build/bin/jllvm'', ''/build/bin/jllvm-jvmc'', ''/llvm/bin/javac'',
               ''/jdk/bin/javac''])"

definition ambient0 :: env where
  "ambient0 = [''HOME'' \<mapsto> ''/root'', ''FILECHECK_OPTS'' \<mapsto> ''-v'']"

definition library0 :: llvm_config where
  "library0 = library fs0 [''''] [] False"

section \<open>Properties\<close>

subsection \<open>Running the script\<close>

lemma and_then_Inr_iff:
  "and_then m f = Inr y \<longleftrightarrow> (\<exists>x. m = Inr x \<and> f x = Inr y)"
  by (cases m) (simp_all add: and_then_def)

lemmas sample_defs =
  lit_cfg_def library0_def library_def site0_def fs0_def ambient0_def Let_def and_then_def
  getitem_def lib_with_system_environment_def lib_use_default_substitutions_def
  lib_with_environment_def lib_add_tool_substitutions_def tools_def tool_dirs_def resolve_def
  candidate_def register_def

text \<open>The sample run reaches the end of the script; this is the table it leaves.\<close>

lemma sample_run:
  "\<exists>c. lit_cfg library0 ambient0 ''/src/tests/lit.cfg.py'' site0 = Inr c \<and>
       substitutions c =
         [(''%PATH%'', ''/usr/bin''),
          (''jllvm'', ''/build/bin/jllvm %{JLLVM_EXTRA_ARGS}''),
          (''jllvm-jvmc'', ''/build/bin/jllvm-jvmc''),
          (''javac'', ''/llvm/bin/javac''),
          (''jasmin'', ''java -jar /jasmin/jasmin.jar''),
          (''%{JLLVM_EXTRA_ARGS}'', '''')]"
  by (simp add: sample_defs)

subsection \<open>The environment of the tests\<close>

text \<open>
  Claim C10. Whenever the script runs to its end, the environment it leaves in
  \<^verbatim>\<open>config.environment\<close>, which is the environment the tests of the suite are executed in,
  holds the variable \<^verbatim>\<open>FILECHECK_OPTS\<close> with exactly the value
  \<^verbatim>\<open>-enable-var-scope --allow-unused-prefixes=false\<close>: whatever the environment of the
  harness process holds, whatever the configuration the script starts from holds, and whatever
  the library's methods do to the configuration before. The assignment is the last write to the
  environment in the script.
\<close>

theorem filecheck_opts_set:
  assumes "lit_cfg L os_environ file c0 = Inr c"
  shows "environment c ''FILECHECK_OPTS'' = Some ''-enable-var-scope --allow-unused-prefixes=false''"
  using assms
  by (auto simp add: lit_cfg_def Let_def and_then_Inr_iff)

text \<open>
  In the sample run the harness process holds \<^verbatim>\<open>FILECHECK_OPTS=-v\<close> and the starting
  configuration \<^verbatim>\<open>FILECHECK_OPTS=--dump-input=always\<close>; neither survives.
\<close>

theorem filecheck_opts_set_witness:
  "ambient0 ''FILECHECK_OPTS'' = Some ''-v'' \<and>
   environment site0 ''FILECHECK_OPTS'' = Some ''--dump-input=always'' \<and>
   (\<exists>c. lit_cfg library0 ambient0 ''/src/tests/lit.cfg.py'' site0 = Inr c \<and>
        environment c ''FILECHECK_OPTS'' =
          Some ''-enable-var-scope --allow-unused-prefixes=false'')"
proof -
  obtain c where c: "lit_cfg library0 ambient0 ''/src/tests/lit.cfg.py'' site0 = Inr c"
    using sample_run by blast
  have "environment c ''FILECHECK_OPTS'' = Some ''-enable-var-scope --allow-unused-prefixes=false''"
    using c by (rule filecheck_opts_set)
  with c show ?thesis by (auto simp add: ambient0_def site0_def)
qed

subsection \<open>The order of registration\<close>

text \<open>
  Claim C5. The claim fails on the script: the expansion of a substitution may reference a
  token that is registered later in the same table. The script hands the tool
  \<^verbatim>\<open>jllvm\<close>, whose fixed extra argument is the token \<^verbatim>\<open>%{JLLVM_EXTRA_ARGS}\<close>, to
  \<^verbatim>\<open>add_tool_substitutions\<close> first, and registers \<^verbatim>\<open>%{JLLVM_EXTRA_ARGS}\<close> itself, with the
  empty expansion, only afterwards: whenever the script runs to its end, whatever the library
  does, the table it leaves is the table that \<^verbatim>\<open>add_tool_substitutions\<close> left, followed by
  the entry of \<^verbatim>\<open>%{JLLVM_EXTRA_ARGS}\<close> as the last one. The reference is not resolved at
  registration time.
\<close>

theorem extra_args_token_registered_last:
  assumes "lit_cfg L os_environ file c0 = Inr c"
  shows "\<exists>c1 c2.
           tools c1 =
             [ToolSubst ''jllvm'' None [''%{JLLVM_EXTRA_ARGS}''],
              Name ''jllvm-jvmc'',
              Name ''javac'',
              ToolSubst ''jasmin'' (Some (''java -jar '' @ jasmin_src c1 @ ''/jasmin.jar'')) []] \<and>
           add_tool_substitutions L (tools c1) (tool_dirs c1) c1 = Inr c2 \<and>
           substitutions c = substitutions c2 @ [(''%{JLLVM_EXTRA_ARGS}'', '''')]"
proof -
  from assms obtain c1 c2 where
    call: "add_tool_substitutions L (tools c1) (tool_dirs c1) c1 = Inr c2" and
    rest: "c = c2\<lparr>environment := (environment c2)
                  (''FILECHECK_OPTS'' \<mapsto> ''-enable-var-scope --allow-unused-prefixes=false''),
                substitutions := substitutions c2 @ [(''%{JLLVM_EXTRA_ARGS}'', '''')]\<rparr>"
    by (auto simp add: lit_cfg_def Let_def and_then_Inr_iff)
  have "substitutions c = substitutions c2 @ [(''%{JLLVM_EXTRA_ARGS}'', '''')]"
    using rest by simp
  with call show ?thesis
    unfolding tools_def by blast
qed

theorem extra_args_token_registered_last_witness:
  "\<exists>c c1 c2.
     lit_cfg library0 ambient0 ''/src/tests/lit.cfg.py'' site0 = Inr c \<and>
     add_tool_substitutions library0 (tools c1) (tool_dirs c1) c1 = Inr c2 \<and>
     substitutions c = substitutions c2 @ [(''%{JLLVM_EXTRA_ARGS}'', '''')]"
proof -
  obtain c where c: "lit_cfg library0 ambient0 ''/src/tests/lit.cfg.py'' site0 = Inr c"
    using sample_run by blast
  from extra_args_token_registered_last [OF c] c show ?thesis by blast
qed

text \<open>
  The table of the sample run: the entry of \<^verbatim>\<open>jllvm\<close> is stored with the token
  \<^verbatim>\<open>%{JLLVM_EXTRA_ARGS}\<close> in its expansion, and the token is registered after it.
\<close>

theorem built_table_references_later_token:
  "\<exists>c. lit_cfg library0 ambient0 ''/src/tests/lit.cfg.py'' site0 = Inr c \<and>
       substitutions c =
         [(''%PATH%'', ''/usr/bin''),
          (''jllvm'', ''/build/bin/jllvm %{JLLVM_EXTRA_ARGS}''),
          (''jllvm-jvmc'', ''/build/bin/jllvm-jvmc''),
          (''javac'', ''/llvm/bin/javac''),
          (''jasmin'', ''java -jar /jasmin/jasmin.jar''),
          (''%{JLLVM_EXTRA_ARGS}'', '''')] \<and>
       \<not> no_later_token (substitutions c)"
proof -
  obtain c where c: "lit_cfg library0 ambient0 ''/src/tests/lit.cfg.py'' site0 = Inr c"
    and T: "substitutions c =
         [(''%PATH%'', ''/usr/bin''),
          (''jllvm'', ''/build/bin/jllvm %{JLLVM_EXTRA_ARGS}''),
          (''jllvm-jvmc'', ''/build/bin/jllvm-jvmc''),
          (''javac'', ''/llvm/bin/javac''),
          (''jasmin'', ''java -jar /jasmin/jasmin.jar''),
          (''%{JLLVM_EXTRA_ARGS}'', '''')]"
    using sample_run by blast
  have "\<not> no_later_token (substitutions c)"
    unfolding T by (simp add: sublist_code prefix_code)
  with c T show ?thesis by blast
qed

text \<open>
  With the library as the specification describes it, the stored table has this shape in every
  run: the tools in the order of the list, \<^verbatim>\<open>jllvm\<close> with its fixed argument as literal text,
  and the token's own entry last.
\<close>

lemma resolve_explicit: "resolve fs exts n dirs (Some p) = ResolvedTool p"
  by (simp add: resolve_def)

lemma library_table_shape:
  assumes "add_tool_substitutions L = lib_add_tool_substitutions fs exts"
    and "lit_cfg L os_environ file c0 = Inr c"
  shows "\<exists>before p q r.
           substitutions c =
             before @
             [(''jllvm'', p @ '' %{JLLVM_EXTRA_ARGS}''),
              (''jllvm-jvmc'', q),
              (''javac'', r),
              (''jasmin'', ''java -jar '' @ jasmin_src c @ ''/jasmin.jar''),
              (''%{JLLVM_EXTRA_ARGS}'', '''')]"
  using assms
  by (auto simp add: lit_cfg_def Let_def and_then_Inr_iff lib_add_tool_substitutions_def
      tools_def register_def resolve_explicit split: sum.splits resolution.splits)

subsection \<open>The priority of the search directories\<close>

lemma find_in_dir_None_iff:
  "find_in_dir fs exts d n = None \<longleftrightarrow> (\<forall>s\<in>set exts. \<not> fs (candidate d n s))"
  by (induction exts) auto

lemma find_in_dir_found:
  "\<exists>s\<in>set exts. fs (candidate d n s) \<Longrightarrow>
   \<exists>s\<in>set exts. fs (candidate d n s) \<and> find_in_dir fs exts d n = Some (candidate d n s)"
  by (induction exts) auto

lemma scan_first:
  "i < length dirs \<Longrightarrow> find_in_dir fs exts (dirs ! i) n = Some p \<Longrightarrow>
   \<forall>j<i. find_in_dir fs exts (dirs ! j) n = None \<Longrightarrow> scan fs exts n dirs = Some p"
proof (induction dirs arbitrary: i)
  case Nil
  then show ?case by simp
next
  case (Cons d ds)
  show ?case
  proof (cases i)
    case 0
    with Cons.prems show ?thesis by simp
  next
    case (Suc k)
    from Cons.prems(3) Suc have "find_in_dir fs exts d n = None"
      by (metis nth_Cons_0 zero_less_Suc)
    moreover have "scan fs exts n ds = Some p"
    proof (rule Cons.IH)
      show "k < length ds" using Cons.prems(1) Suc by simp
      show "find_in_dir fs exts (ds ! k) n = Some p" using Cons.prems(2) Suc by simp
      show "\<forall>j<k. find_in_dir fs exts (ds ! j) n = None"
        using Cons.prems(3) Suc by (metis Suc_less_eq nth_Cons_Suc)
    qed
    ultimately show ?thesis by simp
  qed
qed

text \<open>
  Claim C1. A tool resolved without an explicit path is found in the first search directory
  that holds an executable of its name: if the directory at position \<^verbatim>\<open>i\<close> of the list holds
  one (under one of the platform's suffixes) and no directory before it does, the resolver
  returns an executable of that name under the directory at position \<^verbatim>\<open>i\<close>, whatever the
  directories after it hold. So of two directories that both hold the tool, the one listed
  earlier gives the path.
\<close>

theorem resolve_first_match:
  assumes "i < length dirs"
    and "\<exists>s\<in>set exts. fs (candidate (dirs ! i) n s)"
    and "\<forall>j<i. \<forall>s\<in>set exts. \<not> fs (candidate (dirs ! j) n s)"
  shows "\<exists>s\<in>set exts. fs (candidate (dirs ! i) n s) \<and>
           resolve fs exts n dirs None = ResolvedTool (candidate (dirs ! i) n s)"
proof -
  from assms(2) obtain s where s: "s \<in> set exts" "fs (candidate (dirs ! i) n s)"
    and found: "find_in_dir fs exts (dirs ! i) n = Some (candidate (dirs ! i) n s)"
    using find_in_dir_found by blast
  from assms(3) have "\<forall>j<i. find_in_dir fs exts (dirs ! j) n = None"
    by (simp add: find_in_dir_None_iff)
  with assms(1) found have "scan fs exts n dirs = Some (candidate (dirs ! i) n s)"
    by (rule scan_first)
  then show ?thesis using s by (auto simp add: resolve_def)
qed

text \<open>
  In the sample run \<^verbatim>\<open>javac\<close> is in the second and in the third of the script's search
  directories, and not in the first: the second gives the path.
\<close>

theorem resolve_first_match_witness:
  "tool_dirs site0 = [''/build/bin'', ''/llvm/bin'', ''/jdk/bin''] \<and>
   \<not> fs0 ''/build/bin/javac'' \<and> fs0 ''/llvm/bin/javac'' \<and> fs0 ''/jdk/bin/javac'' \<and>
   resolve fs0 [''''] ''javac'' (tool_dirs site0) None = ResolvedTool ''/llvm/bin/javac''"
  using resolve_first_match [of 1 "tool_dirs site0" "['''']" fs0 "''javac''"]
  by (simp add: tool_dirs_def site0_def fs0_def candidate_def)

end
